theory Spec2Isabelle
  imports Complex_Main "HOL-Library.Word" "HOL-Library.List_Lexorder" "HOL-Library.Char_ord"
begin

section \<open>The robot plugin (src/src/RobotPlugin.cc)\<close>

subsection \<open>Data\<close>

text \<open>
  \<^verbatim>\<open>ignition::math::Vector3d\<close>. The C++ \<^verbatim>\<open>double\<close> is read as a real number throughout:
  rounding, infinities and NaN are outside this development.
\<close>

record Vector3d =
  X :: real
  Y :: real
  Z :: real

definition Zero :: Vector3d where
  "Zero = \<lparr>X = 0, Y = 0, Z = 0\<rparr>"

definition Distance :: "Vector3d \<Rightarrow> Vector3d \<Rightarrow> real" where
  "Distance p q = sqrt ((X p - X q)\<^sup>2 + (Y p - Y q)\<^sup>2 + (Z p - Z q)\<^sup>2)"

text \<open>\<^verbatim>\<open>IGN_DBL_MAX\<close>, the largest finite double.\<close>

definition IGN_DBL_MAX :: real where
  "IGN_DBL_MAX = (2 ^ 53 - 1) * 2 ^ 971"

text \<open>
  \<^verbatim>\<open>msgs::Datagram\<close>, with the fields the plugin reads and writes; \<^verbatim>\<open>dst_port\<close> is a
  \<^verbatim>\<open>uint32_t\<close>, \<^verbatim>\<open>recipients\<close> a repeated string field.
\<close>

record Datagram =
  src_address :: string
  dst_address :: string
  dst_port :: "32 word"
  data :: string
  recipients :: "string list"

text \<open>\<^verbatim>\<open>msgs::Neighbor_V\<close>: a repeated string field \<^verbatim>\<open>neighbors\<close>.\<close>

record Neighbor_V =
  neighbors_V :: "string list"

text \<open>
  What the plugin writes to \<^verbatim>\<open>gzerr\<close>. The three messages of \<^verbatim>\<open>SendTo\<close> and
  \<^verbatim>\<open>OnMsgReceived\<close> are told apart by the error kind they report:
  the payload size and the limit, the broker topic, the topic that was not found.
\<close>

datatype error =
  PayloadTooLarge nat nat
  | PublishFailure string
  | UnknownDestination string

text \<open>
  The effects of the plugin on its environment, in the order they happen: a line on
  \<^verbatim>\<open>gzerr\<close>, a call of \<^verbatim>\<open>node.Publish(topic, msg)\<close>, a call of a user callback with
  \<^verbatim>\<open>(src_address, dst_address, dst_port, data)\<close>. User callbacks are opaque: the type
  \<open>'cb\<close> names them.
\<close>

datatype 'cb event =
  GzErr error
  | Publish string Datagram
  | UserCallback 'cb string string "32 word" string

text \<open>
  The members of \<^verbatim>\<open>RobotPlugin\<close> that the functions below use. \<^verbatim>\<open>kMtu\<close> and
  \<^verbatim>\<open>booRechargeDistance\<close> are constants of the class declaration, which is not part
  of the sources at hand, so they are fields here; \<open>boo\<close> says whether the pointer to
  the base of operations is set.
\<close>

record 'cb RobotPlugin =
  address :: string
  callbacks :: "string \<rightharpoonup> 'cb"
  neighbors :: "string list"
  neighborProbabilities :: "string \<rightharpoonup> real"
  kMtu :: nat
  boo :: bool
  booRechargeDistance :: real
  linearVelocityNoNoise :: Vector3d
  angularVelocityNoNoise :: Vector3d
  startCapacity :: real
  capacity :: real
  consumption :: real
  consumptionFactor :: real

text \<open>
  What the plugin takes from Gazebo in \<^verbatim>\<open>UpdateBattery\<close>: the name of its model, the
  world positions of its model and of the base of operations, the physics engine's
  maximum step size, and \<^verbatim>\<open>operator==\<close> of the math library's vectors, whose code is
  not part of the sources at hand (it compares coordinates up to a tolerance).
\<close>

record Gazebo =
  GetName :: string
  modelPos :: Vector3d
  booPos :: Vector3d
  GetMaxStepSize :: real
  equalVector :: "Vector3d \<Rightarrow> Vector3d \<Rightarrow> bool"

definition Host :: "('cb, 'x) RobotPlugin_scheme \<Rightarrow> string" where
  "Host this = address this"

subsection \<open>Topics\<close>

text \<open>\<^verbatim>\<open>std::to_string\<close> on an unsigned integer: its decimal digits.\<close>

definition digit :: "nat \<Rightarrow> char" where
  "digit d = ''0123456789'' ! d"

fun to_string :: "nat \<Rightarrow> string" where
  "to_string n = (if n < 10 then [digit n] else to_string (n div 10) @ [digit (n mod 10)])"

declare to_string.simps [simp del]

definition kBrokerIncomingTopic :: string where
  "kBrokerIncomingTopic = ''/swarm/broker/incoming''"

text \<open>The key of \<^verbatim>\<open>callbacks\<close> that \<^verbatim>\<open>OnMsgReceived\<close> builds from a datagram.\<close>

definition topic :: "Datagram \<Rightarrow> string" where
  "topic msg = ''/swarm/'' @ dst_address msg @ ''/'' @ to_string (unat (dst_port msg))"

subsection \<open>SendTo\<close>

text \<open>
  \<^verbatim>\<open>node.Publish\<close> belongs to the transport library; whether a call succeeds is an
  input, \<open>publishOk\<close>. \<open>outgoing\<close> is the datagram that \<^verbatim>\<open>SendTo\<close> fills in (the
  recipients are left to the broker). The result of \<open>SendTo\<close> is the returned boolean
  and the effects; a \<open>Publish\<close> effect records the call, whether it succeeded or not.
\<close>

definition outgoing ::
  "('cb, 'x) RobotPlugin_scheme \<Rightarrow> string \<Rightarrow> string \<Rightarrow> 32 word \<Rightarrow> Datagram" where
  "outgoing this dat dstAddress port =
     \<lparr>src_address = Host this, dst_address = dstAddress, dst_port = port,
      data = dat, recipients = []\<rparr>"

definition SendTo ::
  "(string \<Rightarrow> Datagram \<Rightarrow> bool) \<Rightarrow> ('cb, 'x) RobotPlugin_scheme \<Rightarrow>
     string \<Rightarrow> string \<Rightarrow> 32 word \<Rightarrow> bool \<times> 'cb event list" where
  "SendTo publishOk this dat dstAddress port =
     (if length dat > kMtu this then
        (False, [GzErr (PayloadTooLarge (length dat) (kMtu this))])
      else
        let msg = outgoing this dat dstAddress port
        in if \<not> publishOk kBrokerIncomingTopic msg then
             (False, [Publish kBrokerIncomingTopic msg,
                      GzErr (PublishFailure kBrokerIncomingTopic)])
           else (True, [Publish kBrokerIncomingTopic msg]))"

subsection \<open>OnMsgReceived\<close>

text \<open>The loop over \<^verbatim>\<open>_msg.recipients()\<close> that sets \<^verbatim>\<open>visible\<close> and breaks.\<close>

fun visible :: "string \<Rightarrow> string list \<Rightarrow> bool" where
  "visible host [] = False"
| "visible host (r # rs) = (if r = host then True else visible host rs)"

text \<open>The plugin after the call (none of its members is written) and the effects.\<close>

definition OnMsgReceived ::
  "('cb, 'x) RobotPlugin_scheme \<Rightarrow> Datagram \<Rightarrow>
     ('cb, 'x) RobotPlugin_scheme \<times> 'cb event list" where
  "OnMsgReceived this msg =
     (case callbacks this (topic msg) of
        None \<Rightarrow> (this, [GzErr (UnknownDestination (topic msg))])
      | Some userCallback \<Rightarrow>
          if visible (Host this) (recipients msg) then
            (this, [UserCallback userCallback (src_address msg) (dst_address msg)
                      (dst_port msg) (data msg)])
          else (this, []))"

fun isUserCallback :: "'cb event \<Rightarrow> bool" where
  "isUserCallback (UserCallback cb s d p x) = True"
| "isUserCallback e = False"

fun isGzErr :: "'cb event \<Rightarrow> bool" where
  "isGzErr (GzErr e) = True"
| "isGzErr e = False"

fun isPublish :: "'cb event \<Rightarrow> bool" where
  "isPublish (Publish t m) = True"
| "isPublish e = False"

subsection \<open>OnNeighborsReceived\<close>

text \<open>
  The loop over \<^verbatim>\<open>_msg.neighbors()\<close>: \<open>acc\<close> is \<^verbatim>\<open>this->neighbors\<close> as built so far,
  \<^verbatim>\<open>push_back\<close> appends. The function runs under the plugin's mutex, so it is one
  step here.
\<close>

fun push_neighbors :: "string \<Rightarrow> string list \<Rightarrow> string list \<Rightarrow> string list" where
  "push_neighbors host acc [] = acc"
| "push_neighbors host acc (n # ns) =
     push_neighbors host (if n \<noteq> host then acc @ [n] else acc) ns"

definition OnNeighborsReceived ::
  "('cb, 'x) RobotPlugin_scheme \<Rightarrow> Neighbor_V \<Rightarrow> ('cb, 'x) RobotPlugin_scheme" where
  "OnNeighborsReceived this msg =
     (let cleared = this\<lparr>neighbors := [], neighborProbabilities := Map.empty\<rparr>
      in cleared\<lparr>neighbors :=
           push_neighbors (Host cleared) (neighbors cleared) (neighbors_V msg)\<rparr>)"

subsection \<open>UpdateBattery\<close>

definition UpdateBattery ::
  "Gazebo \<Rightarrow> ('cb, 'x) RobotPlugin_scheme \<Rightarrow> ('cb, 'x) RobotPlugin_scheme" where
  "UpdateBattery gz this =
     (if GetName gz = ''boo'' then this
      else
        let distToBOO = (if boo this then Distance (modelPos gz) (booPos gz) else IGN_DBL_MAX)
        in if distToBOO < booRechargeDistance this \<and>
              equalVector gz (linearVelocityNoNoise this) Zero \<and>
              equalVector gz (angularVelocityNoNoise this) Zero
           then
             let mAhRecharged = consumption this * (consumptionFactor this * 4) *
                                  (GetMaxStepSize gz / 3600)
             in this\<lparr>capacity := min (capacity this + mAhRecharged) (startCapacity this)\<rparr>
           else
             let mAhConsumed = consumption this * consumptionFactor this *
                                 (GetMaxStepSize gz / 3600)
             in this\<lparr>capacity := max 0 (capacity this - mAhConsumed)\<rparr>)"

section \<open>The communication model (src/include/swarm/CommsModel.hh)\<close>

text \<open>
  The parameters of \<^verbatim>\<open>CommsModel\<close>, as the class declaration lists them. A negative
  minimum or maximum means no limit, a negative penalty an infinite one. The bodies of
  the member functions (\<^verbatim>\<open>Update\<close>, \<^verbatim>\<open>UpdateOutages\<close>, \<^verbatim>\<open>UpdateVisibility\<close>,
  \<^verbatim>\<open>UpdateNeighbors\<close>) are not part of the sources at hand: everything below the
  parameters follows the specification's text.
\<close>

record Configuration =
  neighborDistanceMin :: real
  neighborDistanceMax :: real
  neighborDistancePenaltyTree :: real
  commsDistanceMin :: real
  commsDistanceMax :: real
  commsDistancePenaltyTree :: real
  commsDropProbabilityMin :: real
  commsDropProbabilityMax :: real
  commsOutageProbability :: real
  commsOutageDurationMin :: real
  commsOutageDurationMax :: real

text \<open>The default values of the class declaration.\<close>

definition defaults :: Configuration where
  "defaults = \<lparr>neighborDistanceMin = -1, neighborDistanceMax = -1,
     neighborDistancePenaltyTree = 0, commsDistanceMin = -1, commsDistanceMax = -1,
     commsDistancePenaltyTree = 0, commsDropProbabilityMin = 0,
     commsDropProbabilityMax = 0, commsOutageProbability = 0,
     commsOutageDurationMin = -1, commsOutageDurationMax = -1\<rparr>"

subsection \<open>Distance and penalty scoring\<close>

text \<open>
  Modelled from the spec: the result of \<^verbatim>\<open>ComputeVisibility\<close> (the body of
  \<^verbatim>\<open>CommsModel::LineOfSight\<close> is missing): clear, or obstructed with the names of the
  first and the last obstacle.
\<close>

datatype ObstructionResult = Clear | Obstructed string string

text \<open>
  Modelled from the spec: an effective distance (the scoring inside the missing
  \<^verbatim>\<open>CommsModel::UpdateNeighborList\<close>), which is a number or infinite.
\<close>

datatype distance = Finite real | Infinite

text \<open>
  Modelled from the spec: the penalty term, "0 if clear else (infinite if penaltyTree < 0
  else penaltyTree)".
\<close>

definition obstructionPenalty :: "ObstructionResult \<Rightarrow> real \<Rightarrow> distance" where
  "obstructionPenalty r penaltyTree =
     (case r of
        Clear \<Rightarrow> Finite 0
      | Obstructed firstName lastName \<Rightarrow> if penaltyTree < 0 then Infinite else Finite penaltyTree)"

text \<open>Modelled from the spec: a Euclidean distance plus a penalty.\<close>

fun plus_penalty :: "real \<Rightarrow> distance \<Rightarrow> distance" where
  "plus_penalty d (Finite p) = Finite (d + p)"
| "plus_penalty d Infinite = Infinite"

text \<open>
  Modelled from the spec: "effectiveDistance = euclideanDistance + (0 if clear else
  (infinite if penaltyTree < 0 else penaltyTree))".
\<close>

definition effectiveDistance ::
  "Vector3d \<Rightarrow> Vector3d \<Rightarrow> ObstructionResult \<Rightarrow> real \<Rightarrow> distance" where
  "effectiveDistance p1 p2 r penaltyTree =
     plus_penalty (Distance p1 p2) (obstructionPenalty r penaltyTree)"

text \<open>
  Modelled from the spec: "A pair satisfies a policy when min \<le> effectiveDistance \<le> max,
  treating a negative min/max as no constraint on that side." An infinite effective
  distance lies within no limits, set or not: "a negative penalty means infinite (one
  obstruction fully blocks the relation)", as the comments of the penalty parameters in
  the class declaration say ("one obstacle blocks neighbors", "one obstacle blocks
  comms").
\<close>

definition satisfiesPolicy :: "real \<Rightarrow> real \<Rightarrow> distance \<Rightarrow> bool" where
  "satisfiesPolicy mn mx d =
     (case d of
        Infinite \<Rightarrow> False
      | Finite x \<Rightarrow> (mn < 0 \<or> mn \<le> x) \<and> (mx < 0 \<or> x \<le> mx))"

text \<open>Modelled from the spec: the neighbor policy, with the neighbor parameters.\<close>

definition neighborEligible ::
  "Configuration \<Rightarrow> Vector3d \<Rightarrow> Vector3d \<Rightarrow> ObstructionResult \<Rightarrow> bool" where
  "neighborEligible cfg p1 p2 r =
     satisfiesPolicy (neighborDistanceMin cfg) (neighborDistanceMax cfg)
       (effectiveDistance p1 p2 r (neighborDistancePenaltyTree cfg))"

text \<open>
  Modelled from the spec: the comms policy, evaluated with its own parameters; "comms
  eligibility additionally requires neighbor eligibility".
\<close>

definition commsEligible ::
  "Configuration \<Rightarrow> Vector3d \<Rightarrow> Vector3d \<Rightarrow> ObstructionResult \<Rightarrow> bool" where
  "commsEligible cfg p1 p2 r =
     (neighborEligible cfg p1 p2 r \<and>
      satisfiesPolicy (commsDistanceMin cfg) (commsDistanceMax cfg)
        (effectiveDistance p1 p2 r (commsDistancePenaltyTree cfg)))"

subsection \<open>Outage state machine\<close>

text \<open>
  Modelled from the spec: the outage state of a node, "{inOutage: bool, outageEndTime:
  optional simulation-time}" (the members of the swarm are declared in
  \<^verbatim>\<open>SwarmTypes.hh\<close>, which is missing). Simulation time is a real number.
\<close>

record OutageState =
  inOutage :: bool
  outageEndTime :: "real option"

text \<open>
  Modelled from the spec: the stochastic trial of a node that is not in outage (part of
  the missing \<^verbatim>\<open>CommsModel::UpdateOutages\<close>). The node enters an outage "with probability
  commsOutageProbability (interpreted as a per-second rate, scaled by tick duration)":
  \<open>dt\<close> is the time since the last update and \<open>u\<close> the draw of the injected random
  source for this node and tick, uniform in [0, 1).
\<close>

definition entersOutage :: "Configuration \<Rightarrow> real \<Rightarrow> real \<Rightarrow> bool" where
  "entersOutage cfg dt u = (u < commsOutageProbability cfg * dt)"


text \<open>
  Modelled from the spec: one node's step of the missing \<^verbatim>\<open>CommsModel::UpdateOutages\<close>
  at time \<open>now\<close>, \<open>dt\<close> after the last update. A node in outage leaves it when
  \<open>now \<ge> outageEndTime\<close>. A node not in outage enters one when its trial succeeds, and
  records \<open>outageEndTime = now + duration\<close>, where \<open>duration\<close> is the length drawn for
  this outage by the injected random source.
\<close>

definition updateOutage ::
  "Configuration \<Rightarrow> real \<Rightarrow> real \<Rightarrow> real \<Rightarrow> real \<Rightarrow> OutageState \<Rightarrow> OutageState" where
  "updateOutage cfg now dt u duration st =
     (if inOutage st then
        (case outageEndTime st of
           None \<Rightarrow> st
         | Some t \<Rightarrow> if now \<ge> t then st\<lparr>inOutage := False\<rparr> else st)
      else if entersOutage cfg dt u then
        \<lparr>inOutage = True, outageEndTime = Some (now + duration)\<rparr>
      else st)"


subsection \<open>Connectivity engine\<close>

text \<open>
  Modelled from the spec: the World State Provider, \<^verbatim>\<open>Position(nodeAddress)\<close> and
  \<^verbatim>\<open>Occludes(p1, p2)\<close>.
\<close>

record WorldState =
  Position :: "string \<Rightarrow> Vector3d"
  Occludes :: "Vector3d \<Rightarrow> Vector3d \<Rightarrow> ObstructionResult"

text \<open>
  Modelled from the spec: the state of the engine (the missing \<^verbatim>\<open>CommsModel\<close>
  implementation and its swarm): the configuration, the roster of node addresses, the
  outage state and the neighbor set held per node, the link records of the current tick
  keyed by the canonical (lexicographically ordered) pair of addresses, and the time of
  the last update. A neighbor set is kept as the list of its addresses, in roster order.
\<close>

record Engine =
  config :: Configuration
  roster :: "string list"
  outage :: "string \<Rightarrow> OutageState"
  visibility :: "string \<times> string \<rightharpoonup> ObstructionResult"
  neighborSets :: "string \<rightharpoonup> string list"
  lastUpdateTime :: real

text \<open>
  Modelled from the spec: what one tick reads from outside the engine: the clock, the
  world, and the two random draws per node of the missing \<^verbatim>\<open>UpdateOutages\<close>: the draw
  of the trial, and the duration drawn for the outage if the node enters one.
\<close>

record Tick =
  now :: real
  world :: WorldState
  trialDraw :: "string \<Rightarrow> real"
  outageDuration :: "string \<Rightarrow> real"

text \<open>Modelled from the spec: the canonical key of an unordered pair of addresses.\<close>

definition pairKey :: "string \<Rightarrow> string \<Rightarrow> string \<times> string" where
  "pairKey a b = (if a \<le> b then (a, b) else (b, a))"

text \<open>
  Modelled from the spec: step (1) of a tick, the missing \<^verbatim>\<open>CommsModel::UpdateOutages\<close>:
  every node of the roster takes its outage step.
\<close>

definition UpdateOutages :: "Tick \<Rightarrow> Engine \<Rightarrow> Engine" where
  "UpdateOutages t e =
     e\<lparr>outage := (\<lambda>a. if a \<in> set (roster e)
                        then updateOutage (config e) (now t) (now t - lastUpdateTime e)
                               (trialDraw t a) (outageDuration t a) (outage e a)
                        else outage e a),
       lastUpdateTime := now t\<rparr>"

text \<open>
  Modelled from the spec: step (2), the missing \<^verbatim>\<open>CommsModel::UpdateVisibility\<close>: one
  occlusion query for every unordered pair of non-outaged nodes, cached under the pair's
  key; the records of the previous tick are discarded.
\<close>

definition UpdateVisibility :: "WorldState \<Rightarrow> Engine \<Rightarrow> Engine" where
  "UpdateVisibility w e =
     e\<lparr>visibility := (\<lambda>(a, b).
         if a \<in> set (roster e) \<and> b \<in> set (roster e) \<and> a < b \<and>
            \<not> inOutage (outage e a) \<and> \<not> inOutage (outage e b)
         then Some (Occludes w (Position w a) (Position w b))
         else None)\<rparr>"

text \<open>
  Modelled from the spec: whether \<open>b\<close> satisfies the neighbor policy with \<open>a\<close>, from the
  link record of the pair that this tick cached.
\<close>

definition isNeighbor :: "WorldState \<Rightarrow> Engine \<Rightarrow> string \<Rightarrow> string \<Rightarrow> bool" where
  "isNeighbor w e a b =
     (case visibility e (pairKey a b) of
        None \<Rightarrow> False
      | Some r \<Rightarrow> neighborEligible (config e) (Position w a) (Position w b) r)"

text \<open>
  Modelled from the spec: step (3), the missing \<^verbatim>\<open>CommsModel::UpdateNeighborList\<close>: the
  neighbor set of a node, derived "using the neighbor policy against all other
  non-outaged nodes"; "a node in Outage receives an empty neighbor set".
\<close>

definition deriveNeighborSet :: "WorldState \<Rightarrow> Engine \<Rightarrow> string \<Rightarrow> string list" where
  "deriveNeighborSet w e a =
     (if inOutage (outage e a) then []
      else filter (\<lambda>b. b \<noteq> a \<and> \<not> inOutage (outage e b) \<and> isNeighbor w e a b) (roster e))"

text \<open>
  Modelled from the spec: steps (3) and (4), the missing \<^verbatim>\<open>CommsModel::UpdateNeighbors\<close>:
  every node's neighbor set is replaced by the newly derived one.
\<close>

definition UpdateNeighbors :: "WorldState \<Rightarrow> Engine \<Rightarrow> Engine" where
  "UpdateNeighbors w e =
     e\<lparr>neighborSets := (\<lambda>a. if a \<in> set (roster e) then Some (deriveNeighborSet w e a)
                              else None)\<rparr>"

text \<open>
  Modelled from the spec: the link model of a tick: visibility, then neighbor derivation
  (the second half of the missing \<^verbatim>\<open>CommsModel::Update\<close>).
\<close>

definition LinkModel :: "WorldState \<Rightarrow> Engine \<Rightarrow> Engine" where
  "LinkModel w e = UpdateNeighbors w (UpdateVisibility w e)"

text \<open>
  Modelled from the spec: a whole tick, the missing \<^verbatim>\<open>CommsModel::Update\<close>: the outages
  first, then the link model.
\<close>

definition Update :: "Tick \<Rightarrow> Engine \<Rightarrow> Engine" where
  "Update t e = LinkModel (world t) (UpdateOutages t e)"




text \<open>Modelled from the spec: \<^verbatim>\<open>CurrentNeighbors(address)\<close>, the neighbor query.\<close>

definition CurrentNeighbors :: "Engine \<Rightarrow> string \<Rightarrow> string list" where
  "CurrentNeighbors e a = (case neighborSets e a of None \<Rightarrow> [] | Some ns \<Rightarrow> ns)"

subsection \<open>Recipients of a datagram\<close>

text \<open>
  Modelled from the spec: the reserved addresses (their values are constants of the
  missing \<^verbatim>\<open>RobotPlugin.hh\<close>): the broadcast address, and the multicast group addresses
  with the members of each group.
\<close>

record Addressing =
  kBroadcast :: string
  multicastGroup :: "string \<rightharpoonup> string list"

text \<open>
  Modelled from the spec: the per-candidate test of the send path (the broker, whose
  code is missing): sender and candidate are in each other's neighbor set, the pair
  satisfies the comms policy, and the drop draw of this candidate (\<open>dropped\<close>, an input)
  does not discard the message.
\<close>

definition reaches ::
  "WorldState \<Rightarrow> Engine \<Rightarrow> (string \<Rightarrow> bool) \<Rightarrow> string \<Rightarrow> string \<Rightarrow> bool" where
  "reaches w e dropped src c =
     (c \<in> set (CurrentNeighbors e src) \<and> src \<in> set (CurrentNeighbors e c) \<and>
      (case visibility e (pairKey src c) of
         None \<Rightarrow> False
       | Some r \<Rightarrow> commsEligible (config e) (Position w src) (Position w c) r) \<and>
      \<not> dropped c)"

text \<open>
  Modelled from the spec: the recipients list of a datagram from \<open>src\<close> to \<open>dst\<close>:
  broadcast, multicast (restricted to the group's members) or unicast.
\<close>

definition computeRecipients ::
  "Addressing \<Rightarrow> WorldState \<Rightarrow> Engine \<Rightarrow> (string \<Rightarrow> bool) \<Rightarrow> string \<Rightarrow> string \<Rightarrow>
     string list" where
  "computeRecipients ad w e dropped src dst =
     (if dst = kBroadcast ad then
        filter (\<lambda>c. c \<noteq> src \<and> reaches w e dropped src c) (roster e)
      else case multicastGroup ad dst of
        Some members \<Rightarrow>
          filter (\<lambda>c. c \<noteq> src \<and> c \<in> set members \<and> reaches w e dropped src c) (roster e)
      | None \<Rightarrow> filter (\<lambda>c. reaches w e dropped src c) [dst])"

section \<open>Example data\<close>

text \<open>
  The two robots of the example controller (example/TeamControllerPlugin.cc), with the
  battery of the battery test (test/integration/battery_plugin.cc).
\<close>

definition robot1 :: "nat RobotPlugin" where
  "robot1 = \<lparr>address = ''192.168.2.1'',
     callbacks = [''/swarm/192.168.2.1/4100'' \<mapsto> 7],
     neighbors = [''192.168.2.9''], neighborProbabilities = Map.empty,
     kMtu = 1500, boo = True, booRechargeDistance = 5,
     linearVelocityNoNoise = Zero, angularVelocityNoNoise = Zero,
     startCapacity = 3500, capacity = 3500, consumption = 1500,
     consumptionFactor = 7 / 10\<rparr>"

definition unicast1 :: Datagram where
  "unicast1 = \<lparr>src_address = ''192.168.2.2'', dst_address = ''192.168.2.1'',
     dst_port = 4100, data = ''Unicast data'',
     recipients = [''192.168.2.3'', ''192.168.2.1'']\<rparr>"

text \<open>The datagram again: overheard by a robot that is not among the recipients, and
  sent to a port on which the robot has bound no callback.\<close>

definition overheard1 :: Datagram where
  "overheard1 = unicast1\<lparr>recipients := [''192.168.2.3'']\<rparr>"

definition unknown1 :: Datagram where
  "unknown1 = unicast1\<lparr>dst_port := 4200\<rparr>"

definition strayUnknown1 :: Datagram where
  "strayUnknown1 = overheard1\<lparr>dst_port := 4200\<rparr>"

text \<open>
  Gazebo as the battery update reads it: the robot ten metres from the base of operations
  with the default step of a millisecond; the same for the model named "boo"; and a
  physics engine whose maximum step size was set negative.
\<close>

definition gazebo1 :: Gazebo where
  "gazebo1 = \<lparr>GetName = ''robot_1'', modelPos = \<lparr>X = 10, Y = 0, Z = 0\<rparr>, booPos = Zero,
     GetMaxStepSize = 1 / 1000,
     equalVector = (\<lambda>p q. \<bar>X p - X q\<bar> \<le> 1 / 1000 \<and> \<bar>Y p - Y q\<bar> \<le> 1 / 1000 \<and>
                           \<bar>Z p - Z q\<bar> \<le> 1 / 1000)\<rparr>"

definition gazeboBoo :: Gazebo where
  "gazeboBoo = gazebo1\<lparr>GetName := ''boo''\<rparr>"

definition gazeboBackwards :: Gazebo where
  "gazeboBackwards = gazebo1\<lparr>GetMaxStepSize := - 1 / 1000\<rparr>"

text \<open>
  A swarm of the same two robots, one metre apart with a clear line of sight, under the
  thresholds of the specification's first scenario, an outage rate of one half per second
  and outages that last between zero and five seconds; nobody is in outage yet. Three
  ticks on it. At time 1, a second after the start, the trial of robot 1 succeeds (its
  draw is below one half) and that of robot 2 fails; the outage drawn for robot 1 lasts
  two seconds, and the draw of robot 2, which is not used, is zero. The same with a drawn
  duration of zero for both; the first tick again at time 7.
\<close>

definition world1 :: WorldState where
  "world1 = \<lparr>Position = (\<lambda>a. if a = ''192.168.2.1'' then Zero else \<lparr>X = 1, Y = 0, Z = 0\<rparr>),
     Occludes = (\<lambda>p q. Clear)\<rparr>"

definition engine0 :: Engine where
  "engine0 = \<lparr>config = defaults\<lparr>neighborDistanceMax := 10, commsDistanceMax := 10,
                  commsOutageProbability := 1 / 2,
                  commsOutageDurationMin := 0, commsOutageDurationMax := 5\<rparr>,
     roster = [''192.168.2.1'', ''192.168.2.2''],
     outage = (\<lambda>a. \<lparr>inOutage = False, outageEndTime = None\<rparr>),
     visibility = Map.empty, neighborSets = Map.empty, lastUpdateTime = 0\<rparr>"

definition tickOutage :: Tick where
  "tickOutage = \<lparr>now = 1, world = world1,
     trialDraw = (\<lambda>a. if a = ''192.168.2.1'' then 1 / 4 else 3 / 4),
     outageDuration = (\<lambda>a. if a = ''192.168.2.1'' then 2 else 0)\<rparr>"



definition addressing1 :: Addressing where
  "addressing1 = \<lparr>kBroadcast = ''broadcast'',
     multicastGroup = [''multicast'' \<mapsto> [''192.168.2.1'', ''192.168.2.2'']]\<rparr>"

text \<open>A datagram from robot 2 to robot 1 with the recipients that the engine computes
  after the first of these ticks.\<close>

definition strayUnicast :: Datagram where
  "strayUnicast = unicast1\<lparr>recipients :=
     computeRecipients addressing1 world1 (Update tickOutage engine0) (\<lambda>c. False)
       ''192.168.2.2'' ''192.168.2.1''\<rparr>"

section \<open>Properties of the robot plugin\<close>

subsection \<open>Loops and topics\<close>

lemma visible_iff: "visible host rs = (host \<in> set rs)"
  by (induction rs) auto

lemma push_neighbors_filter:
  "push_neighbors host acc ns = acc @ filter (\<lambda>n. n \<noteq> host) ns"
  by (induction ns arbitrary: acc) auto

text \<open>
  The key determines the destination: the decimal digits of the port contain no slash,
  so two datagrams with the same key have the same destination address and port.
\<close>

lemma digit_inj:
  assumes "i < 10" "j < 10" "digit i = digit j"
  shows "i = j"
proof -
  have "distinct ''0123456789''" by simp
  moreover have "i < length ''0123456789''" "j < length ''0123456789''"
    using assms(1,2) by simp_all
  ultimately have "(''0123456789'' ! i = ''0123456789'' ! j) = (i = j)"
    by (rule nth_eq_iff_index_eq)
  then show ?thesis using assms(3) by (simp only: digit_def)
qed

lemma digit_not_slash:
  assumes "d < 10"
  shows "digit d \<noteq> CHR ''/''"
proof -
  have "d < length ''0123456789''" using assms by simp
  then have "''0123456789'' ! d \<in> set ''0123456789''" by (rule nth_mem)
  then have "digit d \<in> set ''0123456789''" by (simp only: digit_def)
  then show ?thesis by auto
qed

lemma to_string_no_slash: "CHR ''/'' \<notin> set (to_string n)"
proof (induction n rule: to_string.induct)
  case (1 n)
  show ?case
  proof (cases "n < 10")
    case True
    then show ?thesis
      using digit_not_slash [of n] by (simp add: to_string.simps [of n])
  next
    case False
    have "n mod 10 < 10" by simp
    then have "digit (n mod 10) \<noteq> CHR ''/''" by (rule digit_not_slash)
    then show ?thesis
      using False "1.IH" by (auto simp: to_string.simps [of n])
  qed
qed

lemma to_string_length_one: "(length (to_string n) = 1) = (n < 10)"
proof (cases "n < 10")
  case True
  then show ?thesis by (simp add: to_string.simps [of n])
next
  case False
  have "to_string (n div 10) \<noteq> []"
    by (subst to_string.simps) simp
  then have "length (to_string (n div 10)) \<noteq> 0" by simp
  then show ?thesis using False by (simp add: to_string.simps [of n])
qed

lemma to_string_inj: "to_string n = to_string m \<Longrightarrow> n = m"
proof (induction n arbitrary: m rule: to_string.induct)
  case (1 n)
  show ?case
  proof (cases "n < 10")
    case True
    then have "length (to_string m) = 1"
      using "1.prems" to_string_length_one [of n] by simp
    then have m: "m < 10" by (simp only: to_string_length_one)
    then have "digit n = digit m"
      using True "1.prems" by (simp add: to_string.simps [of n] to_string.simps [of m])
    then show ?thesis using True m by (simp add: digit_inj)
  next
    case False
    then have "length (to_string m) \<noteq> 1"
      using "1.prems" to_string_length_one [of n] by simp
    then have m: "\<not> m < 10" using to_string_length_one [of m] by blast
    have "to_string (n div 10) @ [digit (n mod 10)] = to_string (m div 10) @ [digit (m mod 10)]"
      using False m "1.prems" by (simp add: to_string.simps [of n] to_string.simps [of m])
    then have a: "to_string (n div 10) = to_string (m div 10)"
      and b: "digit (n mod 10) = digit (m mod 10)"
      by simp_all
    have "n div 10 = m div 10" using False a by (rule "1.IH")
    moreover have "n mod 10 = m mod 10" using b by (intro digit_inj) simp_all
    ultimately show ?thesis by (metis div_mult_mod_eq)
  qed
qed

lemma split_at_last_slash:
  assumes "a @ CHR ''/'' # d = a' @ CHR ''/'' # d'"
    and "CHR ''/'' \<notin> set d" "CHR ''/'' \<notin> set d'"
  shows "a = a' \<and> d = d'"
proof -
  have "rev d @ CHR ''/'' # rev a = rev d' @ CHR ''/'' # rev a'"
    using assms(1) by (metis rev.simps(2) rev_append append_assoc append_Cons append_Nil)
  moreover have "takeWhile (\<lambda>c. c \<noteq> CHR ''/'') (rev d @ CHR ''/'' # rev a) = rev d"
    using assms(2) by (auto simp: takeWhile_tail)
  moreover have "takeWhile (\<lambda>c. c \<noteq> CHR ''/'') (rev d' @ CHR ''/'' # rev a') = rev d'"
    using assms(3) by (auto simp: takeWhile_tail)
  ultimately have "rev d = rev d'" by simp
  then have "d = d'" by simp
  then show ?thesis using assms(1) by simp
qed

lemma topic_inject:
  assumes "topic m = topic m'"
  shows "dst_address m = dst_address m' \<and> dst_port m = dst_port m'"
proof -
  have "dst_address m @ CHR ''/'' # to_string (unat (dst_port m)) =
        dst_address m' @ CHR ''/'' # to_string (unat (dst_port m'))"
    using assms by (simp add: topic_def)
  then have "dst_address m = dst_address m' \<and>
      to_string (unat (dst_port m)) = to_string (unat (dst_port m'))"
    by (rule split_at_last_slash) (rule to_string_no_slash)+
  then have "dst_address m = dst_address m'" and "unat (dst_port m) = unat (dst_port m')"
    by (simp_all add: to_string_inj)
  then show ?thesis by (simp add: word_unat_eq_iff)
qed

lemma topic_unicast1: "topic unicast1 = ''/swarm/192.168.2.1/4100''"
  by (simp add: topic_def unicast1_def to_string.simps digit_def)

lemma topic_overheard1: "topic overheard1 = ''/swarm/192.168.2.1/4100''"
  by (simp add: topic_def overheard1_def unicast1_def to_string.simps digit_def)

lemma topic_unknown1: "topic unknown1 = ''/swarm/192.168.2.1/4200''"
  by (simp add: topic_def unknown1_def unicast1_def to_string.simps digit_def)

lemma topic_strayUnknown1: "topic strayUnknown1 = ''/swarm/192.168.2.1/4200''"
  by (simp add: topic_def strayUnknown1_def overheard1_def unicast1_def to_string.simps
      digit_def)

lemma callbacks_robot1:
  "callbacks robot1 ''/swarm/192.168.2.1/4100'' = Some 7"
  "callbacks robot1 ''/swarm/192.168.2.1/4200'' = None"
  by (simp_all add: robot1_def)

lemma Host_robot1: "Host robot1 = ''192.168.2.1''"
  by (simp add: Host_def robot1_def)

subsection \<open>Receiving a datagram\<close>

text \<open>
  C3: when the destination (address, port) of an arriving datagram has a registered
  callback, that callback is invoked (once, with the datagram's source, destination, port
  and data) if and only if the robot's own address is in the datagram's recipients list;
  and whatever the destination, no callback runs for a datagram whose recipients list
  does not contain the robot's address.
\<close>

theorem OnMsgReceived_recipients_gate:
  "(callbacks this (topic msg) = Some cb \<longrightarrow>
      (snd (OnMsgReceived this msg) =
          [UserCallback cb (src_address msg) (dst_address msg) (dst_port msg) (data msg)])
        = (Host this \<in> set (recipients msg))
      \<and> (\<exists>e \<in> set (snd (OnMsgReceived this msg)). isUserCallback e)
        = (Host this \<in> set (recipients msg)))
   \<and> (Host this \<notin> set (recipients msg) \<longrightarrow>
        \<not> (\<exists>e \<in> set (snd (OnMsgReceived this msg)). isUserCallback e))"
  by (auto simp: OnMsgReceived_def visible_iff split: option.splits if_splits)

theorem OnMsgReceived_recipients_gate_witness:
  "snd (OnMsgReceived robot1 unicast1) =
     [UserCallback 7 ''192.168.2.2'' ''192.168.2.1'' 4100 ''Unicast data'']
   \<and> \<not> (\<exists>e \<in> set (snd (OnMsgReceived robot1 overheard1)). isUserCallback e)"
proof -
  have registered: "callbacks robot1 (topic unicast1) = Some 7"
    by (simp add: topic_unicast1 callbacks_robot1)
  have listed: "Host robot1 \<in> set (recipients unicast1)"
    by (simp add: Host_robot1 unicast1_def)
  have unlisted: "Host robot1 \<notin> set (recipients overheard1)"
    by (simp add: Host_robot1 overheard1_def)
  have fields: "src_address unicast1 = ''192.168.2.2''" "dst_address unicast1 = ''192.168.2.1''"
    "dst_port unicast1 = 4100" "data unicast1 = ''Unicast data''"
    by (simp_all add: unicast1_def)
  from OnMsgReceived_recipients_gate [of robot1 unicast1 7]
    OnMsgReceived_recipients_gate [of robot1 overheard1 7] registered listed unlisted fields
  show ?thesis by simp
qed

text \<open>
  C6: when the destination (address, port) of an arriving datagram has no registered
  callback, the router's only effect is the error it reports for the unknown destination:
  no callback is invoked, nothing is published (so nothing goes back to the sender), and
  the call returns with the robot unchanged.
\<close>

theorem OnMsgReceived_unknown_destination:
  "callbacks this (topic msg) = None \<Longrightarrow>
     OnMsgReceived this msg = (this, [GzErr (UnknownDestination (topic msg))])
     \<and> \<not> (\<exists>e \<in> set (snd (OnMsgReceived this msg)). isUserCallback e)
     \<and> \<not> (\<exists>e \<in> set (snd (OnMsgReceived this msg)). isPublish e)"
  by (simp add: OnMsgReceived_def)

theorem OnMsgReceived_unknown_destination_witness:
  "OnMsgReceived robot1 unknown1 =
     (robot1, [GzErr (UnknownDestination ''/swarm/192.168.2.1/4200'')])"
proof -
  have "callbacks robot1 (topic unknown1) = None"
    by (simp add: topic_unknown1 callbacks_robot1)
  from OnMsgReceived_unknown_destination [OF this] show ?thesis
    by (simp add: topic_unknown1)
qed

text \<open>
  C9: the check for a registered callback comes before the check of the recipients list.
  A datagram for an unregistered destination is reported as an unknown destination even
  when the robot's address is not among its recipients; a datagram for a registered
  destination whose recipients do not include the robot has no effect at all: no error,
  no callback.
\<close>

theorem OnMsgReceived_check_order:
  "(callbacks this (topic msg) = None \<and> Host this \<notin> set (recipients msg) \<longrightarrow>
      snd (OnMsgReceived this msg) = [GzErr (UnknownDestination (topic msg))])
   \<and> (callbacks this (topic msg) = Some cb \<and> Host this \<notin> set (recipients msg) \<longrightarrow>
      snd (OnMsgReceived this msg) = [])"
  by (simp add: OnMsgReceived_def visible_iff)

theorem OnMsgReceived_check_order_witness:
  "snd (OnMsgReceived robot1 strayUnknown1) =
     [GzErr (UnknownDestination ''/swarm/192.168.2.1/4200'')]
   \<and> snd (OnMsgReceived robot1 overheard1) = []"
proof -
  have unregistered: "callbacks robot1 (topic strayUnknown1) = None"
    by (simp add: topic_strayUnknown1 callbacks_robot1)
  have registered: "callbacks robot1 (topic overheard1) = Some 7"
    by (simp add: topic_overheard1 callbacks_robot1)
  have unlisted: "Host robot1 \<notin> set (recipients strayUnknown1)"
    "Host robot1 \<notin> set (recipients overheard1)"
    by (simp_all add: Host_robot1 strayUnknown1_def overheard1_def)
  from OnMsgReceived_check_order [of robot1 strayUnknown1]
    OnMsgReceived_check_order [of robot1 overheard1 7] unregistered registered unlisted
  show ?thesis by (simp add: topic_strayUnknown1)
qed

subsection \<open>Sending\<close>

text \<open>
  C4: a payload longer than the maximum transmission size makes SendTo return false at
  once, reporting the payload as too large and without any call to publish; a payload
  within the limit is published to the broker, and SendTo returns false, reporting the
  publish failure, when that call fails, and true otherwise. So SendTo returns true if
  and only if the payload is within the limit and the publish succeeds.
\<close>

theorem SendTo_result:
  "(length dat > kMtu this \<longrightarrow>
      SendTo publishOk this dat dst port =
        (False, [GzErr (PayloadTooLarge (length dat) (kMtu this))])
      \<and> \<not> (\<exists>e \<in> set (snd (SendTo publishOk this dat dst port)). isPublish e))
   \<and> (length dat \<le> kMtu this \<and>
       \<not> publishOk kBrokerIncomingTopic (outgoing this dat dst port) \<longrightarrow>
      SendTo publishOk this dat dst port =
        (False, [Publish kBrokerIncomingTopic (outgoing this dat dst port),
                 GzErr (PublishFailure kBrokerIncomingTopic)]))
   \<and> (length dat \<le> kMtu this \<and>
       publishOk kBrokerIncomingTopic (outgoing this dat dst port) \<longrightarrow>
      SendTo publishOk this dat dst port =
        (True, [Publish kBrokerIncomingTopic (outgoing this dat dst port)]))
   \<and> fst (SendTo publishOk this dat dst port) =
       (length dat \<le> kMtu this \<and>
        publishOk kBrokerIncomingTopic (outgoing this dat dst port))"
  by (auto simp: SendTo_def Let_def)

theorem SendTo_result_witness:
  "SendTo (\<lambda>t m. True) robot1 (replicate 1501 CHR ''x'') ''192.168.2.2'' 4100 =
     (False, [GzErr (PayloadTooLarge 1501 1500)])
   \<and> snd (SendTo (\<lambda>t m. False) robot1 ''Unicast data'' ''192.168.2.2'' 4100) =
     [Publish ''/swarm/broker/incoming''
        \<lparr>src_address = ''192.168.2.1'', dst_address = ''192.168.2.2'', dst_port = 4100,
         data = ''Unicast data'', recipients = []\<rparr>,
      GzErr (PublishFailure ''/swarm/broker/incoming'')]
   \<and> \<not> fst (SendTo (\<lambda>t m. False) robot1 ''Unicast data'' ''192.168.2.2'' 4100)
   \<and> fst (SendTo (\<lambda>t m. True) robot1 ''Unicast data'' ''192.168.2.2'' 4100)"
proof -
  have mtu: "kMtu robot1 = 1500"
    by (simp add: robot1_def)
  have long: "length (replicate 1501 CHR ''x'') > kMtu robot1"
    by (simp add: mtu)
  have short: "length ''Unicast data'' \<le> kMtu robot1"
    by (simp add: mtu)
  have msg: "outgoing robot1 ''Unicast data'' ''192.168.2.2'' 4100 =
      \<lparr>src_address = ''192.168.2.1'', dst_address = ''192.168.2.2'', dst_port = 4100,
       data = ''Unicast data'', recipients = []\<rparr>"
    by (simp add: outgoing_def Host_robot1)
  from SendTo_result [where this = robot1 and dat = "replicate 1501 CHR ''x''"
        and publishOk = "\<lambda>t m. True" and dst = "''192.168.2.2''" and port = 4100]
    SendTo_result [where this = robot1 and dat = "''Unicast data''"
        and publishOk = "\<lambda>t m. False" and dst = "''192.168.2.2''" and port = 4100]
    SendTo_result [where this = robot1 and dat = "''Unicast data''"
        and publishOk = "\<lambda>t m. True" and dst = "''192.168.2.2''" and port = 4100]
    long short
  show ?thesis by (simp add: msg mtu kBrokerIncomingTopic_def)
qed

subsection \<open>Neighbor updates\<close>

text \<open>
  C5: a neighbor update replaces the robot's neighbor list by the addresses of the
  message, in order, without the robot's own address: the robot's address is never in
  the new list, and the list that was there before has no influence on it.
\<close>

theorem OnNeighborsReceived_replaces:
  "neighbors (OnNeighborsReceived this msg) = filter (\<lambda>n. n \<noteq> Host this) (neighbors_V msg)
   \<and> Host this \<notin> set (neighbors (OnNeighborsReceived this msg))
   \<and> neighbors (OnNeighborsReceived (this\<lparr>neighbors := old\<rparr>) msg)
       = neighbors (OnNeighborsReceived this msg)
   \<and> Host (OnNeighborsReceived this msg) = Host this"
  by (simp add: OnNeighborsReceived_def Let_def push_neighbors_filter Host_def)

theorem OnNeighborsReceived_replaces_witness:
  "neighbors (OnNeighborsReceived robot1
      \<lparr>neighbors_V = [''192.168.2.2'', ''192.168.2.1'', ''192.168.2.3'']\<rparr>)
     = [''192.168.2.2'', ''192.168.2.3'']"
  using OnNeighborsReceived_replaces [of robot1
      "\<lparr>neighbors_V = [''192.168.2.2'', ''192.168.2.1'', ''192.168.2.3'']\<rparr>"]
  by (simp add: Host_robot1)

subsection \<open>Battery\<close>

lemma mAh_nonneg:
  fixes c f s :: real
  assumes "0 \<le> c" "0 \<le> f" "0 \<le> s"
  shows "0 \<le> c * f * (s / 3600)" and "0 \<le> c * (f * 4) * (s / 3600)"
  using assms by simp_all

lemma discharge_bounds:
  fixes m cap start :: real
  assumes "0 \<le> m" "0 \<le> cap" "cap \<le> start"
  shows "0 \<le> max 0 (cap - m) \<and> max 0 (cap - m) \<le> start"
  using assms by linarith

lemma recharge_bounds:
  fixes m cap start :: real
  assumes "0 \<le> m" "0 \<le> cap" "cap \<le> start"
  shows "0 \<le> min (cap + m) start \<and> min (cap + m) start \<le> start"
  using assms by linarith

text \<open>
  C10, as amended: for a robot whose model is not named "boo", a battery update keeps
  the capacity within [0, startCapacity], given that consumption, consumptionFactor and
  the physics engine's maximum step size are non-negative and that the capacity was
  within that interval before; the start capacity is not changed. For the model named
  "boo" the battery update changes nothing.
\<close>

theorem UpdateBattery_capacity_bounds:
  "(GetName gz \<noteq> ''boo'' \<and> 0 \<le> consumption this \<and> 0 \<le> consumptionFactor this \<and>
    0 \<le> GetMaxStepSize gz \<and> 0 \<le> capacity this \<and> capacity this \<le> startCapacity this \<longrightarrow>
      0 \<le> capacity (UpdateBattery gz this) \<and>
      capacity (UpdateBattery gz this) \<le> startCapacity (UpdateBattery gz this) \<and>
      startCapacity (UpdateBattery gz this) = startCapacity this)
   \<and> (GetName gz = ''boo'' \<longrightarrow> UpdateBattery gz this = this)"
proof (intro conjI impI)
  assume h: "GetName gz \<noteq> ''boo'' \<and> 0 \<le> consumption this \<and> 0 \<le> consumptionFactor this \<and>
    0 \<le> GetMaxStepSize gz \<and> 0 \<le> capacity this \<and> capacity this \<le> startCapacity this"
  let ?used = "consumption this * consumptionFactor this * (GetMaxStepSize gz / 3600)"
  let ?charged = "consumption this * (consumptionFactor this * 4) * (GetMaxStepSize gz / 3600)"
  have used: "0 \<le> ?used" and charged: "0 \<le> ?charged"
    using h mAh_nonneg by blast+
  have "capacity (UpdateBattery gz this) = max 0 (capacity this - ?used) \<or>
        capacity (UpdateBattery gz this) = min (capacity this + ?charged) (startCapacity this)"
    using h by (simp add: UpdateBattery_def Let_def)
  then have "0 \<le> capacity (UpdateBattery gz this) \<and>
             capacity (UpdateBattery gz this) \<le> startCapacity this"
    using discharge_bounds [OF used, of "capacity this" "startCapacity this"]
      recharge_bounds [OF charged, of "capacity this" "startCapacity this"] h
    by presburger
  moreover have "startCapacity (UpdateBattery gz this) = startCapacity this"
    by (simp add: UpdateBattery_def Let_def)
  ultimately show "0 \<le> capacity (UpdateBattery gz this)"
    and "capacity (UpdateBattery gz this) \<le> startCapacity (UpdateBattery gz this)"
    and "startCapacity (UpdateBattery gz this) = startCapacity this"
    by simp_all
next
  assume "GetName gz = ''boo''"
  then show "UpdateBattery gz this = this"
    by (simp add: UpdateBattery_def)
qed

theorem UpdateBattery_capacity_bounds_witness:
  "0 \<le> capacity (UpdateBattery gazebo1 robot1) \<and>
   capacity (UpdateBattery gazebo1 robot1) \<le> 3500 \<and>
   UpdateBattery gazeboBoo robot1 = robot1"
proof -
  have a: "GetName gazebo1 \<noteq> ''boo'' \<and> 0 \<le> consumption robot1 \<and>
     0 \<le> consumptionFactor robot1 \<and> 0 \<le> GetMaxStepSize gazebo1 \<and>
     0 \<le> capacity robot1 \<and> capacity robot1 \<le> startCapacity robot1"
    by (simp add: gazebo1_def robot1_def)
  have b: "GetName gazeboBoo = ''boo''"
    by (simp add: gazeboBoo_def)
  have c: "startCapacity robot1 = 3500"
    by (simp add: robot1_def)
  from UpdateBattery_capacity_bounds [of gazebo1 robot1]
    UpdateBattery_capacity_bounds [of gazeboBoo robot1] a b c
  show ?thesis by simp
qed

text \<open>
  The claim as it was stated asks nothing of the step size. With a negative maximum step
  size the consumed charge is negative, and the discharging branch, which clamps only
  from below, raises the capacity above the start capacity.
\<close>

theorem UpdateBattery_negative_step_counterexample:
  "GetName gazeboBackwards \<noteq> ''boo'' \<and> 0 \<le> consumption robot1 \<and>
   0 \<le> consumptionFactor robot1 \<and> 0 \<le> capacity robot1 \<and>
   capacity robot1 \<le> startCapacity robot1 \<and>
   \<not> capacity (UpdateBattery gazeboBackwards robot1) \<le> startCapacity robot1"
  by (simp add: UpdateBattery_def Let_def gazeboBackwards_def gazebo1_def robot1_def
      Distance_def Zero_def)

section \<open>Properties of the communication model\<close>

subsection \<open>What each step leaves alone\<close>

lemma UpdateVisibility_frame:
  "roster (UpdateVisibility w e) = roster e" "outage (UpdateVisibility w e) = outage e"
  "config (UpdateVisibility w e) = config e"
  "neighborSets (UpdateVisibility w e) = neighborSets e"
  "lastUpdateTime (UpdateVisibility w e) = lastUpdateTime e"
  by (simp_all add: UpdateVisibility_def)

lemma UpdateNeighbors_frame:
  "roster (UpdateNeighbors w e) = roster e" "outage (UpdateNeighbors w e) = outage e"
  "config (UpdateNeighbors w e) = config e"
  "visibility (UpdateNeighbors w e) = visibility e"
  "lastUpdateTime (UpdateNeighbors w e) = lastUpdateTime e"
  by (simp_all add: UpdateNeighbors_def)

lemma LinkModel_frame:
  "roster (LinkModel w e) = roster e" "outage (LinkModel w e) = outage e"
  "config (LinkModel w e) = config e"
  "lastUpdateTime (LinkModel w e) = lastUpdateTime e"
  by (simp_all add: LinkModel_def UpdateNeighbors_frame UpdateVisibility_frame)

lemma Update_frame:
  "roster (Update t e) = roster e" "config (Update t e) = config e"
  "lastUpdateTime (Update t e) = now t"
  "outage (Update t e) a =
     (if a \<in> set (roster e)
      then updateOutage (config e) (now t) (now t - lastUpdateTime e) (trialDraw t a)
             (outageDuration t a) (outage e a)
      else outage e a)"
  by (simp_all add: Update_def LinkModel_frame UpdateOutages_def)

lemma visibility_LinkModel:
  "visibility (LinkModel w e) = visibility (UpdateVisibility w e)"
  by (simp add: LinkModel_def UpdateNeighbors_frame)

lemma neighborSets_LinkModel:
  "neighborSets (LinkModel w e) a =
     (if a \<in> set (roster e) then Some (deriveNeighborSet w (UpdateVisibility w e) a) else None)"
  by (simp add: LinkModel_def UpdateNeighbors_def UpdateVisibility_frame)

lemma CurrentNeighbors_LinkModel:
  "CurrentNeighbors (LinkModel w e) a =
     (if a \<in> set (roster e) then deriveNeighborSet w (UpdateVisibility w e) a else [])"
  by (simp add: CurrentNeighbors_def neighborSets_LinkModel)

subsection \<open>Link records, neighbor sets and recipients\<close>

lemma pairKey_cases:
  "a \<noteq> b \<Longrightarrow> (pairKey a b = (a, b) \<and> a < b) \<or> (pairKey a b = (b, a) \<and> b < a)"
  by (auto simp: pairKey_def)

lemma visibility_pairKey:
  assumes "a \<in> set (roster e)" "b \<in> set (roster e)" "a \<noteq> b"
    "\<not> inOutage (outage e a)" "\<not> inOutage (outage e b)"
  shows "visibility (UpdateVisibility w e) (pairKey a b) =
    Some (Occludes w (Position w (fst (pairKey a b))) (Position w (snd (pairKey a b))))"
  using pairKey_cases [OF assms(3)] assms(1,2,4,5)
  by (auto simp: UpdateVisibility_def)

lemma visibility_Some:
  "visibility (UpdateVisibility w e) k = Some r \<Longrightarrow>
     r = Occludes w (Position w (fst k)) (Position w (snd k))"
  by (cases k) (auto simp: UpdateVisibility_def split: if_splits)

lemma neighbor_iff:
  assumes "a \<in> set (roster e)" "b \<in> set (roster e)" "a \<noteq> b"
    "\<not> inOutage (outage e a)" "\<not> inOutage (outage e b)"
  shows "(b \<in> set (CurrentNeighbors (LinkModel w e) a)) =
    neighborEligible (config e) (Position w a) (Position w b)
      (Occludes w (Position w (fst (pairKey a b))) (Position w (snd (pairKey a b))))"
proof -
  have "(b \<in> set (CurrentNeighbors (LinkModel w e) a)) = isNeighbor w (UpdateVisibility w e) a b"
    using assms by (auto simp: CurrentNeighbors_LinkModel deriveNeighborSet_def
        UpdateVisibility_frame)
  also have "\<dots> = neighborEligible (config e) (Position w a) (Position w b)
      (Occludes w (Position w (fst (pairKey a b))) (Position w (snd (pairKey a b))))"
    by (simp add: isNeighbor_def visibility_pairKey [OF assms] UpdateVisibility_frame)
  finally show ?thesis .
qed

lemma recipients_reached:
  "c \<in> set (computeRecipients ad w e dropped src dst) \<Longrightarrow> reaches w e dropped src c"
  by (auto simp: computeRecipients_def split: if_splits option.splits)

lemma reaches_neighbors:
  "reaches w e dropped src c \<Longrightarrow>
     c \<in> set (CurrentNeighbors e src) \<and> src \<in> set (CurrentNeighbors e c)"
  by (simp add: reaches_def)

lemma recipient_comms_eligible:
  assumes "c \<in> set (computeRecipients ad w (LinkModel w e) dropped src dst)"
  shows "c \<in> set (CurrentNeighbors (LinkModel w e) src) \<and>
    commsEligible (config e) (Position w src) (Position w c)
      (Occludes w (Position w (fst (pairKey src c))) (Position w (snd (pairKey src c))))"
proof -
  have r: "reaches w (LinkModel w e) dropped src c"
    using assms by (rule recipients_reached)
  then obtain x where x: "visibility (UpdateVisibility w e) (pairKey src c) = Some x"
    and c: "commsEligible (config e) (Position w src) (Position w c) x"
    by (auto simp: reaches_def visibility_LinkModel LinkModel_frame split: option.splits)
  have "x = Occludes w (Position w (fst (pairKey src c))) (Position w (snd (pairKey src c)))"
    using x by (rule visibility_Some)
  then show ?thesis
    using c reaches_neighbors [OF r] by simp
qed

lemma outage_Update_tickOutage:
  "outage (Update tickOutage engine0) ''192.168.2.1'' =
     \<lparr>inOutage = True, outageEndTime = Some 3\<rparr>"
  by (simp add: Update_frame updateOutage_def entersOutage_def engine0_def tickOutage_def
      defaults_def)

lemma CurrentNeighbors_engine0:
  "CurrentNeighbors (LinkModel world1 engine0) ''192.168.2.1'' = [''192.168.2.2'']"
  "CurrentNeighbors (LinkModel world1 engine0) ''192.168.2.2'' = [''192.168.2.1'']"
  by (simp_all add: CurrentNeighbors_LinkModel deriveNeighborSet_def UpdateVisibility_def
      isNeighbor_def pairKey_def neighborEligible_def satisfiesPolicy_def
      effectiveDistance_def obstructionPenalty_def Distance_def Zero_def
      engine0_def world1_def defaults_def)

subsection \<open>Distance and penalty scoring\<close>

text \<open>
  C1: the effective distance of a pair is the Euclidean distance plus 0 when the line of
  sight is clear, plus the policy's penaltyTree when it is obstructed and the penalty is
  not negative, and infinite when it is obstructed and the penalty is negative. A pair
  satisfies a policy iff min \<le> effectiveDistance \<le> max, where a negative min or max puts
  no constraint on its side; an infinite effective distance lies within no limits, so
  with a negative penalty one obstruction blocks the relation whatever the limits are.
  The neighbor policy is this test with the neighbor parameters, and a comms-eligible
  pair is neighbor-eligible. The engine applies it: among nodes that are not in outage
  the neighbor set of a node holds exactly the other nodes that are neighbor-eligible
  with it under the pair's link record, and every recipient of a datagram is a neighbor
  of the sender and comms-eligible with it.
\<close>

theorem effectiveDistance_policy:
  "effectiveDistance p1 p2 Clear pen = Finite (Distance p1 p2 + 0)
   \<and> (0 \<le> pen \<longrightarrow> effectiveDistance p1 p2 (Obstructed f l) pen = Finite (Distance p1 p2 + pen))
   \<and> (pen < 0 \<longrightarrow> effectiveDistance p1 p2 (Obstructed f l) pen = Infinite)
   \<and> satisfiesPolicy mn mx (Finite d) = ((mn < 0 \<or> mn \<le> d) \<and> (mx < 0 \<or> d \<le> mx))
   \<and> \<not> satisfiesPolicy mn mx Infinite
   \<and> neighborEligible cfg p1 p2 r =
       satisfiesPolicy (neighborDistanceMin cfg) (neighborDistanceMax cfg)
         (effectiveDistance p1 p2 r (neighborDistancePenaltyTree cfg))
   \<and> (neighborDistancePenaltyTree cfg < 0 \<longrightarrow> \<not> neighborEligible cfg p1 p2 (Obstructed f l))
   \<and> (commsDistancePenaltyTree cfg < 0 \<longrightarrow> \<not> commsEligible cfg p1 p2 (Obstructed f l))
   \<and> (commsEligible cfg p1 p2 r \<longrightarrow>
        neighborEligible cfg p1 p2 r \<and>
        satisfiesPolicy (commsDistanceMin cfg) (commsDistanceMax cfg)
          (effectiveDistance p1 p2 r (commsDistancePenaltyTree cfg)))
   \<and> (a \<in> set (roster e) \<and> b \<in> set (roster e) \<and> a \<noteq> b \<and>
       \<not> inOutage (outage e a) \<and> \<not> inOutage (outage e b) \<longrightarrow>
        (b \<in> set (CurrentNeighbors (LinkModel w e) a)) =
          neighborEligible (config e) (Position w a) (Position w b)
            (Occludes w (Position w (fst (pairKey a b))) (Position w (snd (pairKey a b)))))
   \<and> (c \<in> set (computeRecipients ad w (LinkModel w e) dropped src dst) \<longrightarrow>
        c \<in> set (CurrentNeighbors (LinkModel w e) src) \<and>
        commsEligible (config e) (Position w src) (Position w c)
          (Occludes w (Position w (fst (pairKey src c))) (Position w (snd (pairKey src c)))))"
proof -
  have scoring: "effectiveDistance p1 p2 Clear pen = Finite (Distance p1 p2 + 0)"
    "0 \<le> pen \<longrightarrow> effectiveDistance p1 p2 (Obstructed f l) pen = Finite (Distance p1 p2 + pen)"
    "pen < 0 \<longrightarrow> effectiveDistance p1 p2 (Obstructed f l) pen = Infinite"
    by (simp_all add: effectiveDistance_def obstructionPenalty_def)
  have policy: "satisfiesPolicy mn mx (Finite d) = ((mn < 0 \<or> mn \<le> d) \<and> (mx < 0 \<or> d \<le> mx))"
    "\<not> satisfiesPolicy mn mx Infinite"
    by (simp_all add: satisfiesPolicy_def)
  have neighbor: "neighborEligible cfg p1 p2 r =
       satisfiesPolicy (neighborDistanceMin cfg) (neighborDistanceMax cfg)
         (effectiveDistance p1 p2 r (neighborDistancePenaltyTree cfg))"
    by (simp add: neighborEligible_def)
  have blocks: "neighborDistancePenaltyTree cfg < 0 \<longrightarrow>
      \<not> neighborEligible cfg p1 p2 (Obstructed f l)"
    "commsDistancePenaltyTree cfg < 0 \<longrightarrow> \<not> commsEligible cfg p1 p2 (Obstructed f l)"
    by (simp_all add: commsEligible_def neighborEligible_def effectiveDistance_def
        obstructionPenalty_def satisfiesPolicy_def)
  have comms: "commsEligible cfg p1 p2 r \<longrightarrow>
        neighborEligible cfg p1 p2 r \<and>
        satisfiesPolicy (commsDistanceMin cfg) (commsDistanceMax cfg)
          (effectiveDistance p1 p2 r (commsDistancePenaltyTree cfg))"
    by (simp add: commsEligible_def)
  have sets: "a \<in> set (roster e) \<and> b \<in> set (roster e) \<and> a \<noteq> b \<and>
       \<not> inOutage (outage e a) \<and> \<not> inOutage (outage e b) \<longrightarrow>
        (b \<in> set (CurrentNeighbors (LinkModel w e) a)) =
          neighborEligible (config e) (Position w a) (Position w b)
            (Occludes w (Position w (fst (pairKey a b))) (Position w (snd (pairKey a b))))"
    using neighbor_iff [of a e b w] by blast
  have sent: "c \<in> set (computeRecipients ad w (LinkModel w e) dropped src dst) \<longrightarrow>
        c \<in> set (CurrentNeighbors (LinkModel w e) src) \<and>
        commsEligible (config e) (Position w src) (Position w c)
          (Occludes w (Position w (fst (pairKey src c))) (Position w (snd (pairKey src c))))"
    using recipient_comms_eligible [of c ad w e dropped src dst] by blast
  show ?thesis
    using scoring policy neighbor blocks comms sets sent by (intro conjI)
qed

lemma recipients_engine0:
  "computeRecipients addressing1 world1 (LinkModel world1 engine0) (\<lambda>c. False)
     ''192.168.2.1'' ''192.168.2.2'' = [''192.168.2.2'']"
proof -
  have d: "Distance Zero \<lparr>X = 1, Y = 0, Z = 0\<rparr> = 1"
    by (simp add: Distance_def Zero_def)
  have v: "visibility (LinkModel world1 engine0) (pairKey ''192.168.2.1'' ''192.168.2.2'')
      = Some Clear"
    by (simp add: visibility_LinkModel UpdateVisibility_def pairKey_def engine0_def
        world1_def)
  have p: "Position world1 ''192.168.2.1'' = Zero"
    "Position world1 ''192.168.2.2'' = \<lparr>X = 1, Y = 0, Z = 0\<rparr>"
    by (simp_all add: world1_def)
  have c: "commsEligible (config (LinkModel world1 engine0)) Zero \<lparr>X = 1, Y = 0, Z = 0\<rparr> Clear"
    by (simp add: LinkModel_frame commsEligible_def neighborEligible_def satisfiesPolicy_def
        effectiveDistance_def obstructionPenalty_def d engine0_def defaults_def)
  have "reaches world1 (LinkModel world1 engine0) (\<lambda>c. False) ''192.168.2.1'' ''192.168.2.2''"
    by (simp add: reaches_def CurrentNeighbors_engine0 v p c)
  then show ?thesis
    by (simp add: computeRecipients_def addressing1_def)
qed

theorem effectiveDistance_policy_witness:
  "effectiveDistance Zero \<lparr>X = 1, Y = 0, Z = 0\<rparr> (Obstructed ''tree_1'' ''tree_2'') 5 = Finite 6
   \<and> effectiveDistance Zero \<lparr>X = 1, Y = 0, Z = 0\<rparr> (Obstructed ''tree_1'' ''tree_2'') (- 1)
       = Infinite
   \<and> \<not> neighborEligible (defaults\<lparr>neighborDistancePenaltyTree := - 1\<rparr>)
         Zero \<lparr>X = 1, Y = 0, Z = 0\<rparr> (Obstructed ''tree_1'' ''tree_2'')
   \<and> \<not> commsEligible (defaults\<lparr>commsDistancePenaltyTree := - 1\<rparr>)
         Zero \<lparr>X = 1, Y = 0, Z = 0\<rparr> (Obstructed ''tree_1'' ''tree_2'')
   \<and> neighborEligible (config engine0) Zero \<lparr>X = 1, Y = 0, Z = 0\<rparr> Clear
   \<and> neighborEligible (config engine0) (Position world1 ''192.168.2.1'')
        (Position world1 ''192.168.2.2'')
        (Occludes world1 (Position world1 (fst (pairKey ''192.168.2.1'' ''192.168.2.2'')))
           (Position world1 (snd (pairKey ''192.168.2.1'' ''192.168.2.2''))))
   \<and> commsEligible (config engine0) (Position world1 ''192.168.2.1'')
        (Position world1 ''192.168.2.2'')
        (Occludes world1 (Position world1 (fst (pairKey ''192.168.2.1'' ''192.168.2.2'')))
           (Position world1 (snd (pairKey ''192.168.2.1'' ''192.168.2.2''))))"
proof -
  let ?p = "\<lparr>X = 1, Y = 0, Z = 0\<rparr> :: Vector3d"
  let ?tree = "Obstructed ''tree_1'' ''tree_2''"
  have d: "Distance Zero ?p = 1"
    by (simp add: Distance_def Zero_def)
  have c: "commsEligible (config engine0) Zero ?p Clear"
    by (simp add: commsEligible_def neighborEligible_def satisfiesPolicy_def
        effectiveDistance_def obstructionPenalty_def d engine0_def defaults_def)
  have n: "neighborDistancePenaltyTree (defaults\<lparr>neighborDistancePenaltyTree := - 1\<rparr>) < 0"
    "commsDistancePenaltyTree (defaults\<lparr>commsDistancePenaltyTree := - 1\<rparr>) < 0"
    by simp_all
  have nodes: "''192.168.2.1'' \<in> set (roster engine0) \<and> ''192.168.2.2'' \<in> set (roster engine0)
      \<and> ''192.168.2.1'' \<noteq> ''192.168.2.2''
      \<and> \<not> inOutage (outage engine0 ''192.168.2.1'')
      \<and> \<not> inOutage (outage engine0 ''192.168.2.2'')"
    by (simp add: engine0_def)
  have listed: "''192.168.2.2'' \<in> set (CurrentNeighbors (LinkModel world1 engine0) ''192.168.2.1'')"
    by (simp add: CurrentNeighbors_engine0)
  have sent: "''192.168.2.2'' \<in> set (computeRecipients addressing1 world1
      (LinkModel world1 engine0) (\<lambda>c. False) ''192.168.2.1'' ''192.168.2.2'')"
    by (simp add: recipients_engine0)
  note scored = effectiveDistance_policy [where ?p1.0 = Zero and ?p2.0 = ?p
        and pen = 5 and f = "''tree_1''" and l = "''tree_2''"]
  note blocked = effectiveDistance_policy [where ?p1.0 = Zero and ?p2.0 = ?p
        and pen = "- 1" and f = "''tree_1''" and l = "''tree_2''"
        and cfg = "defaults\<lparr>neighborDistancePenaltyTree := - 1\<rparr>"]
  note silenced = effectiveDistance_policy [where ?p1.0 = Zero and ?p2.0 = ?p
        and f = "''tree_1''" and l = "''tree_2''"
        and cfg = "defaults\<lparr>commsDistancePenaltyTree := - 1\<rparr>"]
  note applied = effectiveDistance_policy [where ?p1.0 = Zero and ?p2.0 = ?p
        and cfg = "config engine0" and r = Clear and e = engine0 and w = world1
        and a = "''192.168.2.1''" and b = "''192.168.2.2''" and c = "''192.168.2.2''"
        and ad = addressing1 and dropped = "\<lambda>c. False" and src = "''192.168.2.1''"
        and dst = "''192.168.2.2''"]
  have "effectiveDistance Zero ?p ?tree 5 = Finite 6"
    using scored d by simp
  moreover have "effectiveDistance Zero ?p ?tree (- 1) = Infinite"
    using blocked by simp
  moreover have "\<not> neighborEligible (defaults\<lparr>neighborDistancePenaltyTree := - 1\<rparr>)
      Zero ?p ?tree"
    using blocked n(1) by blast
  moreover have "\<not> commsEligible (defaults\<lparr>commsDistancePenaltyTree := - 1\<rparr>) Zero ?p ?tree"
    using silenced n(2) by blast
  moreover have "neighborEligible (config engine0) Zero ?p Clear"
    using applied c by blast
  moreover have "neighborEligible (config engine0) (Position world1 ''192.168.2.1'')
        (Position world1 ''192.168.2.2'')
        (Occludes world1 (Position world1 (fst (pairKey ''192.168.2.1'' ''192.168.2.2'')))
           (Position world1 (snd (pairKey ''192.168.2.1'' ''192.168.2.2''))))"
    using applied nodes listed by blast
  moreover have "commsEligible (config engine0) (Position world1 ''192.168.2.1'')
        (Position world1 ''192.168.2.2'')
        (Occludes world1 (Position world1 (fst (pairKey ''192.168.2.1'' ''192.168.2.2'')))
           (Position world1 (snd (pairKey ''192.168.2.1'' ''192.168.2.2''))))"
    using applied sent by blast
  ultimately show ?thesis by (intro conjI)
qed

subsection \<open>Recomputing the link model\<close>

lemma UpdateVisibility_cong:
  "roster e = roster e' \<Longrightarrow> outage e = outage e' \<Longrightarrow>
   visibility (UpdateVisibility w e) = visibility (UpdateVisibility w e')"
  by (simp add: UpdateVisibility_def)

lemma isNeighbor_cong:
  "config e = config e' \<Longrightarrow> visibility e = visibility e' \<Longrightarrow>
   isNeighbor w e a b = isNeighbor w e' a b"
  by (simp add: isNeighbor_def split: option.splits)

lemma deriveNeighborSet_cong:
  assumes "config e = config e'" "visibility e = visibility e'"
    "roster e = roster e'" "outage e = outage e'"
  shows "deriveNeighborSet w e a = deriveNeighborSet w e' a"
  using assms isNeighbor_cong [OF assms(1,2)] by (simp add: deriveNeighborSet_def)

lemma neighborSets_LinkModel_cong:
  assumes "config e = config e'" "roster e = roster e'" "outage e = outage e'"
  shows "neighborSets (LinkModel w e) = neighborSets (LinkModel w e')"
proof
  fix a
  have v: "visibility (UpdateVisibility w e) = visibility (UpdateVisibility w e')"
    using assms(2,3) by (rule UpdateVisibility_cong)
  have d: "deriveNeighborSet w (UpdateVisibility w e) a =
        deriveNeighborSet w (UpdateVisibility w e') a"
  proof (rule deriveNeighborSet_cong)
    show "config (UpdateVisibility w e) = config (UpdateVisibility w e')"
      by (simp only: UpdateVisibility_frame assms(1))
    show "roster (UpdateVisibility w e) = roster (UpdateVisibility w e')"
      by (simp only: UpdateVisibility_frame assms(2))
    show "outage (UpdateVisibility w e) = outage (UpdateVisibility w e')"
      by (simp only: UpdateVisibility_frame assms(3))
  qed (rule v)
  show "neighborSets (LinkModel w e) a = neighborSets (LinkModel w e') a"
    by (simp only: neighborSets_LinkModel d assms(2))
qed

text \<open>
  C8: recomputing the link model (visibility, then neighbor derivation) a second time for
  the same world (positions and occlusion results) and the same outage states gives
  every node the neighbor set of the first computation: the link records, the stored
  neighbor sets and the answers of the neighbor query are the same, in fact the whole
  engine state is; and whatever link records and neighbor sets were stored before a
  computation have no influence on the neighbor sets it yields.
\<close>

theorem LinkModel_idempotent:
  "neighborSets (LinkModel w (LinkModel w e)) = neighborSets (LinkModel w e)
   \<and> visibility (LinkModel w (LinkModel w e)) = visibility (LinkModel w e)
   \<and> CurrentNeighbors (LinkModel w (LinkModel w e)) a = CurrentNeighbors (LinkModel w e) a
   \<and> LinkModel w (LinkModel w e) = LinkModel w e
   \<and> neighborSets (LinkModel w (e\<lparr>visibility := v, neighborSets := ns\<rparr>))
       = neighborSets (LinkModel w e)"
proof -
  have n: "neighborSets (LinkModel w (LinkModel w e)) = neighborSets (LinkModel w e)"
    by (rule neighborSets_LinkModel_cong) (simp_all add: LinkModel_frame)
  have v: "visibility (LinkModel w (LinkModel w e)) = visibility (LinkModel w e)"
    unfolding visibility_LinkModel
    by (rule UpdateVisibility_cong) (simp_all add: LinkModel_frame)
  have eq: "LinkModel w (LinkModel w e) = LinkModel w e"
    using n v by (intro Engine.equality) (simp_all add: LinkModel_frame)
  have s: "neighborSets (LinkModel w (e\<lparr>visibility := v, neighborSets := ns\<rparr>))
       = neighborSets (LinkModel w e)"
    by (rule neighborSets_LinkModel_cong) simp_all
  show ?thesis using n v eq s by (simp add: CurrentNeighbors_def)
qed

theorem LinkModel_idempotent_witness:
  "CurrentNeighbors (LinkModel world1 (LinkModel world1 engine0)) ''192.168.2.1'' =
     [''192.168.2.2'']"
  using LinkModel_idempotent [of world1 engine0 "''192.168.2.1''"]
  by (simp add: CurrentNeighbors_engine0)

subsection \<open>Outage state machine\<close>










subsection \<open>Isolation of a node in outage\<close>

lemma outaged_has_no_neighbors:
  "inOutage (outage e a) \<Longrightarrow> CurrentNeighbors (LinkModel w e) a = []"
  by (simp add: CurrentNeighbors_LinkModel deriveNeighborSet_def UpdateVisibility_frame)

lemma outaged_is_no_neighbor:
  "inOutage (outage e a) \<Longrightarrow> a \<notin> set (CurrentNeighbors (LinkModel w e) b)"
  by (auto simp: CurrentNeighbors_LinkModel deriveNeighborSet_def UpdateVisibility_frame)

lemma outaged_sends_nothing:
  assumes "inOutage (outage e a)"
  shows "computeRecipients ad w' (LinkModel w e) dropped a dst = []"
proof (rule ccontr)
  assume "computeRecipients ad w' (LinkModel w e) dropped a dst \<noteq> []"
  then obtain c where "c \<in> set (computeRecipients ad w' (LinkModel w e) dropped a dst)"
    by (cases "computeRecipients ad w' (LinkModel w e) dropped a dst") auto
  then have "c \<in> set (CurrentNeighbors (LinkModel w e) a)"
    using recipients_reached reaches_neighbors by blast
  then show False
    using outaged_has_no_neighbors [OF assms] by simp
qed

lemma outaged_receives_nothing:
  assumes "inOutage (outage e a)"
  shows "a \<notin> set (computeRecipients ad w' (LinkModel w e) dropped src dst)"
proof
  assume "a \<in> set (computeRecipients ad w' (LinkModel w e) dropped src dst)"
  then have "a \<in> set (CurrentNeighbors (LinkModel w e) src)"
    using recipients_reached reaches_neighbors by blast
  then show False
    using outaged_is_no_neighbor [OF assms] by blast
qed

text \<open>
  C2: for every node that is in outage after a tick, the neighbor set stored for it is
  empty (the neighbor query answers the empty list), and its address is in no node's
  neighbor set. It neither sends nor receives: the recipients list of every datagram it
  sends is empty, its address is in the recipients list of no datagram, whoever sends it
  and whatever the drop draws are, and so the receive path of its plugin invokes no
  callback for any such datagram.
\<close>

theorem outage_isolation:
  "inOutage (outage (Update t e) a) \<Longrightarrow>
     (a \<in> set (roster e) \<longrightarrow> neighborSets (Update t e) a = Some [])
     \<and> CurrentNeighbors (Update t e) a = []
     \<and> (\<forall>b. a \<notin> set (CurrentNeighbors (Update t e) b))
     \<and> (\<forall>dst. computeRecipients ad (world t) (Update t e) dropped a dst = [])
     \<and> (\<forall>src dst. a \<notin> set (computeRecipients ad (world t) (Update t e) dropped src dst))
     \<and> (\<forall>src dst msg. recipients msg = computeRecipients ad (world t) (Update t e) dropped src dst
          \<and> Host this = a \<longrightarrow>
            \<not> (\<exists>ev \<in> set (snd (OnMsgReceived this msg)). isUserCallback ev))"
proof -
  assume "inOutage (outage (Update t e) a)"
  then have out: "inOutage (outage (UpdateOutages t e) a)"
    by (simp add: Update_def LinkModel_frame)
  have U: "Update t e = LinkModel (world t) (UpdateOutages t e)"
    by (simp add: Update_def)
  have none: "CurrentNeighbors (Update t e) a = []"
    unfolding U using out by (rule outaged_has_no_neighbors)
  have absent: "a \<notin> set (CurrentNeighbors (Update t e) b)" for b
    unfolding U using out by (rule outaged_is_no_neighbor)
  have sends: "computeRecipients ad (world t) (Update t e) dropped a dst = []" for dst
    unfolding U using out by (rule outaged_sends_nothing)
  have receives: "a \<notin> set (computeRecipients ad (world t) (Update t e) dropped src dst)"
    for src dst
    unfolding U using out by (rule outaged_receives_nothing)
  have stored: "a \<in> set (roster e) \<longrightarrow> neighborSets (Update t e) a = Some []"
  proof
    assume "a \<in> set (roster e)"
    then have "neighborSets (Update t e) a \<noteq> None"
      by (simp add: U neighborSets_LinkModel UpdateOutages_def)
    then show "neighborSets (Update t e) a = Some []"
      using none by (auto simp: CurrentNeighbors_def)
  qed
  have deaf: "\<not> (\<exists>ev \<in> set (snd (OnMsgReceived this msg)). isUserCallback ev)"
    if "recipients msg = computeRecipients ad (world t) (Update t e) dropped src dst"
      and "Host this = a" for src dst msg
    using that receives [of src dst]
    by (auto simp: OnMsgReceived_def visible_iff split: option.splits if_splits)
  show ?thesis
    using none absent sends receives stored deaf by blast
qed

lemma empty_if_only_absent: "A \<subseteq> {x} \<Longrightarrow> x \<notin> A \<Longrightarrow> A = {}"
  by blast

theorem outage_isolation_witness:
  "neighborSets (Update tickOutage engine0) ''192.168.2.1'' = Some []
   \<and> CurrentNeighbors (Update tickOutage engine0) ''192.168.2.1'' = []
   \<and> CurrentNeighbors (Update tickOutage engine0) ''192.168.2.2'' = []
   \<and> computeRecipients addressing1 world1 (Update tickOutage engine0) (\<lambda>c. False)
        ''192.168.2.1'' ''broadcast'' = []
   \<and> computeRecipients addressing1 world1 (Update tickOutage engine0) (\<lambda>c. False)
        ''192.168.2.2'' ''192.168.2.1'' = []
   \<and> \<not> (\<exists>ev \<in> set (snd (OnMsgReceived robot1 strayUnicast)). isUserCallback ev)"
proof -
  have out: "inOutage (outage (Update tickOutage engine0) ''192.168.2.1'')"
    by (simp add: outage_Update_tickOutage)
  have w: "world tickOutage = world1"
    by (simp add: tickOutage_def)
  have r: "''192.168.2.1'' \<in> set (roster engine0)"
    by (simp add: engine0_def)
  have sub: "set (CurrentNeighbors (Update tickOutage engine0) ''192.168.2.2'')
      \<subseteq> {''192.168.2.1''}"
    by (auto simp: Update_def CurrentNeighbors_LinkModel deriveNeighborSet_def
        UpdateVisibility_frame UpdateOutages_def engine0_def)
  have uni: "set (computeRecipients addressing1 world1 (Update tickOutage engine0) (\<lambda>c. False)
        ''192.168.2.2'' ''192.168.2.1'') \<subseteq> {''192.168.2.1''}"
    by (auto simp: computeRecipients_def addressing1_def)
  have m: "recipients strayUnicast =
      computeRecipients addressing1 world1 (Update tickOutage engine0) (\<lambda>c. False)
        ''192.168.2.2'' ''192.168.2.1''"
    by (simp add: strayUnicast_def)
  note iso = outage_isolation [OF out, of addressing1 "\<lambda>c. False" robot1]
  note rest = iso [THEN conjunct2]
  note rest2 = rest [THEN conjunct2]
  note rest3 = rest2 [THEN conjunct2]
  note rest4 = rest3 [THEN conjunct2]
  have stored: "neighborSets (Update tickOutage engine0) ''192.168.2.1'' = Some []"
    using iso [THEN conjunct1] r by (rule mp)
  have none: "CurrentNeighbors (Update tickOutage engine0) ''192.168.2.1'' = []"
    by (rule rest [THEN conjunct1])
  have absent:
    "''192.168.2.1'' \<notin> set (CurrentNeighbors (Update tickOutage engine0) ''192.168.2.2'')"
    by (rule rest2 [THEN conjunct1, THEN spec])
  have sends: "computeRecipients addressing1 world1 (Update tickOutage engine0) (\<lambda>c. False)
        ''192.168.2.1'' ''broadcast'' = []"
    using rest3 [THEN conjunct1, THEN spec, of "''broadcast''"] by (simp only: w simp_thms)
  have receives: "''192.168.2.1'' \<notin> set (computeRecipients addressing1 world1
        (Update tickOutage engine0) (\<lambda>c. False) ''192.168.2.2'' ''192.168.2.1'')"
    using rest4 [THEN conjunct1, THEN spec, THEN spec, of "''192.168.2.2''" "''192.168.2.1''"]
    by (simp only: w simp_thms)
  have deaf: "\<not> (\<exists>ev \<in> set (snd (OnMsgReceived robot1 strayUnicast)). isUserCallback ev)"
  proof -
    have "recipients strayUnicast =
        computeRecipients addressing1 (world tickOutage) (Update tickOutage engine0)
          (\<lambda>c. False) ''192.168.2.2'' ''192.168.2.1'' \<and> Host robot1 = ''192.168.2.1''"
      by (simp only: m w Host_robot1 simp_thms)
    with rest4 [THEN conjunct2] show ?thesis by blast
  qed
  have "set (CurrentNeighbors (Update tickOutage engine0) ''192.168.2.2'') = {}"
    using sub absent by (rule empty_if_only_absent)
  then have alone: "CurrentNeighbors (Update tickOutage engine0) ''192.168.2.2'' = []"
    by simp
  have "set (computeRecipients addressing1 world1 (Update tickOutage engine0) (\<lambda>c. False)
        ''192.168.2.2'' ''192.168.2.1'') = {}"
    using uni receives by (rule empty_if_only_absent)
  then have unheard: "computeRecipients addressing1 world1 (Update tickOutage engine0)
        (\<lambda>c. False) ''192.168.2.2'' ''192.168.2.1'' = []"
    by simp
  show ?thesis
    using stored none alone sends unheard deaf by (intro conjI)
qed

end
